theory Spec2Isabelle
  imports Main "HOL-Library.Sublist" "HOL-Library.AList"
begin

section \<open>Strings and characters\<close>

text \<open>
  An utterance is a \<^typ>\<open>string\<close> of ASCII characters. The character classes below are
  the ones Python's \<^verbatim>\<open>str\<close> methods and \<^verbatim>\<open>re\<close> module use on ASCII text; a
  character outside ASCII is taken as one without case that is neither whitespace, digit
  nor letter. Python's \<^verbatim>\<open>sub in s\<close> on strings is \<^const>\<open>sublist\<close>.
\<close>

definition ord :: "char \<Rightarrow> nat" where
  "ord c = of_char c"

definition is_space :: "char \<Rightarrow> bool" where
  "is_space c = (ord c \<in> {9, 10, 11, 12, 13, 28, 29, 30, 31, 32})"

definition is_digit :: "char \<Rightarrow> bool" where
  "is_digit c = (48 \<le> ord c \<and> ord c \<le> 57)"

definition is_alpha :: "char \<Rightarrow> bool" where
  "is_alpha c = ((65 \<le> ord c \<and> ord c \<le> 90) \<or> (97 \<le> ord c \<and> ord c \<le> 122))"

definition is_word :: "char \<Rightarrow> bool" where
  "is_word c = (is_alpha c \<or> is_digit c \<or> c = CHR ''_'')"

definition lower_char :: "char \<Rightarrow> char" where
  "lower_char c = (if 65 \<le> ord c \<and> ord c \<le> 90 then char_of (ord c + 32) else c)"

definition lower :: "string \<Rightarrow> string" where
  "lower s = map lower_char s"

definition strip :: "string \<Rightarrow> string" where
  "strip s = rev (dropWhile is_space (rev (dropWhile is_space s)))"

definition endswith :: "string \<Rightarrow> string \<Rightarrow> bool" where
  "endswith s x = suffix x s"

fun join :: "string \<Rightarrow> string list \<Rightarrow> string" where
  "join sep [] = []"
| "join sep [x] = x"
| "join sep (x # y # ys) = x @ sep @ join sep (y # ys)"

section \<open>Exceptions\<close>

text \<open>
  The exceptions the parser's own statements can raise: a dictionary lookup of a missing
  key, \<^verbatim>\<open>int\<close> of a string that is not a number, and \<^verbatim>\<open>match.group\<close> of a group the
  pattern does not have. A function that can raise returns \<open>py_exn + 'a\<close>.
\<close>

datatype py_exn = KeyError | ValueError | IndexError

section \<open>Integers and their decimal form\<close>

fun digits_of :: "nat \<Rightarrow> string" where
  "digits_of n =
     (if n < 10 then [char_of (48 + n)]
      else digits_of (n div 10) @ [char_of (48 + n mod 10)])"

definition show_int :: "int \<Rightarrow> string" where
  "show_int i = (if i < 0 then CHR ''-'' # digits_of (nat (- i)) else digits_of (nat i))"

text \<open>
  \<^verbatim>\<open>int(s)\<close> on the text of a \<^verbatim>\<open>\d+\<close> group: the decimal value, of any size. Any other
  string is answered with \<^const>\<open>ValueError\<close> (the parser never passes one).
\<close>

definition py_int :: "string \<Rightarrow> py_exn + int" where
  "py_int s =
     (if s \<noteq> [] \<and> list_all is_digit s
      then Inr (foldl (\<lambda>a c. 10 * a + int (ord c - 48)) 0 s)
      else Inl ValueError)"

section \<open>JSON values and \<^verbatim>\<open>json.dumps\<close>\<close>

text \<open>
  A Python dictionary keeps its keys in insertion order, and \<^verbatim>\<open>json.dumps\<close> writes them
  in that order: a dictionary is an association list, \<^verbatim>\<open>d[k] = v\<close> is \<^const>\<open>AList.update\<close>
  (in place for a key that is there, at the end for a new one).
\<close>

datatype json = JStr string | JInt int | JList "json list" | JDict "(string \<times> json) list"

definition hex_digit :: "nat \<Rightarrow> char" where
  "hex_digit n = (if n < 10 then char_of (48 + n) else char_of (87 + n))"

definition escape_char :: "char \<Rightarrow> string" where
  "escape_char c =
     (if c = CHR ''\"'' then [CHR 0x5C, CHR ''\"'']
      else if c = CHR 0x5C then [CHR 0x5C, CHR 0x5C]
      else if c = CHR 0x0A then [CHR 0x5C, CHR ''n'']
      else if c = CHR 0x0D then [CHR 0x5C, CHR ''r'']
      else if c = CHR 0x09 then [CHR 0x5C, CHR ''t'']
      else if c = CHR 0x08 then [CHR 0x5C, CHR ''b'']
      else if c = CHR 0x0C then [CHR 0x5C, CHR ''f'']
      else if ord c < 32 \<or> 126 < ord c
        then [CHR 0x5C, CHR ''u'', CHR ''0'', CHR ''0'', hex_digit (ord c div 16), hex_digit (ord c mod 16)]
      else [c])"

definition encode_basestring_ascii :: "string \<Rightarrow> string" where
  "encode_basestring_ascii s = [CHR ''\"''] @ concat (map escape_char s) @ [CHR ''\"'']"

fun json_dumps :: "string \<Rightarrow> string \<Rightarrow> json \<Rightarrow> string" where
  "json_dumps isep ksep (JStr s) = encode_basestring_ascii s"
| "json_dumps isep ksep (JInt i) = show_int i"
| "json_dumps isep ksep (JList xs) = ''['' @ join isep (map (json_dumps isep ksep) xs) @ '']''"
| "json_dumps isep ksep (JDict kvs) =
     ''{'' @ join isep (map (\<lambda>kv. encode_basestring_ascii (fst kv) @ ksep @ json_dumps isep ksep (snd kv)) kvs) @ ''}''"

text \<open>\<^verbatim>\<open>json.dumps(d, separators=(',', ':'))\<close> and \<^verbatim>\<open>json.dumps(d)\<close>.\<close>

definition dumps_compact :: "json \<Rightarrow> string" where
  "dumps_compact d = json_dumps '','' '':'' d"

definition dumps_default :: "json \<Rightarrow> string" where
  "dumps_default d = json_dumps '', '' '': '' d"

section \<open>Regular expressions\<close>

text \<open>
  Every pattern of the parser is a sequence of items: literal text, a greedy repetition of
  a character class, an optional character, an alternation of literal words, a word
  boundary, and a capturing group around one of these. \<^verbatim>\<open>re\<close> matches such a sequence by
  backtracking: the first item takes its most preferred length, the rest of the pattern is
  tried on what follows, and on failure the first item gives its next length.
\<close>

datatype cset = Range char char | One char | Esc_s | Esc_d | Esc_w

fun in_cset :: "cset \<Rightarrow> char \<Rightarrow> bool" where
  "in_cset (Range lo hi) c = (ord lo \<le> ord c \<and> ord c \<le> ord hi)"
| "in_cset (One x) c = (c = x)"
| "in_cset Esc_s c = is_space c"
| "in_cset Esc_d c = is_digit c"
| "in_cset Esc_w c = is_word c"

definition in_class :: "cset list \<Rightarrow> char \<Rightarrow> bool" where
  "in_class cs c = list_ex (\<lambda>x. in_cset x c) cs"

datatype item =
    Lit string
  | Plus "cset list"
  | Star "cset list"
  | Opt char
  | Alt "string list"
  | WordB
  | Grp item

fun is_grp :: "item \<Rightarrow> bool" where
  "is_grp (Grp _) = True"
| "is_grp _ = False"

text \<open>\<^verbatim>\<open>\b\<close>: exactly one of the characters before and after the position is a word character.\<close>

definition at_boundary :: "char option \<Rightarrow> string \<Rightarrow> bool" where
  "at_boundary prev s =
     ((case prev of None \<Rightarrow> False | Some c \<Rightarrow> is_word c) \<noteq>
      (case s of [] \<Rightarrow> False | c # _ \<Rightarrow> is_word c))"

text \<open>The lengths an item can take at the head of \<open>s\<close>, most preferred first.\<close>

fun cands :: "item \<Rightarrow> char option \<Rightarrow> string \<Rightarrow> nat list" where
  "cands (Lit l) prev s = (if prefix l s then [length l] else [])"
| "cands (Plus cs) prev s = rev [1 ..< Suc (length (takeWhile (in_class cs) s))]"
| "cands (Star cs) prev s = rev [0 ..< Suc (length (takeWhile (in_class cs) s))]"
| "cands (Opt x) prev s = (if prefix [x] s then [1, 0] else [0])"
| "cands (Alt ls) prev s = map length (filter (\<lambda>l. prefix l s) ls)"
| "cands WordB prev s = (if at_boundary prev s then [0] else [])"
| "cands (Grp it) prev s = cands it prev s"

text \<open>\<^verbatim>\<open>for x in xs: y = f(x); if y is not None: return y\<close>, and \<^verbatim>\<open>return None\<close> after it.\<close>

fun first_some :: "('a \<Rightarrow> 'b option) \<Rightarrow> 'a list \<Rightarrow> 'b option" where
  "first_some f [] = None"
| "first_some f (x # xs) = (case f x of Some y \<Rightarrow> Some y | None \<Rightarrow> first_some f xs)"

text \<open>The congruence rule by which a function that calls itself under \<^const>\<open>first_some\<close> terminates.\<close>

lemma first_some_cong [fundef_cong]:
  "xs = ys \<Longrightarrow> (\<And>x. x \<in> set ys \<Longrightarrow> f x = g x) \<Longrightarrow> first_some f xs = first_some g ys"
  by (induction ys arbitrary: xs) (auto split: option.splits)

definition prev_after :: "char option \<Rightarrow> string \<Rightarrow> nat \<Rightarrow> char option" where
  "prev_after prev s k = (if k = 0 \<or> s = [] then prev else Some (last (take k s)))"

text \<open>
  A match of the pattern at the head of \<open>s\<close>, the character before it being \<open>prev\<close>: the
  number of characters matched and the texts of the groups, in order.
\<close>

fun match_items :: "item list \<Rightarrow> char option \<Rightarrow> string \<Rightarrow> (nat \<times> string list) option" where
  "match_items [] prev s = Some (0, [])"
| "match_items (it # its) prev s =
     first_some
       (\<lambda>k. case match_items its (prev_after prev s k) (drop k s) of
              None \<Rightarrow> None
            | Some (n, gs) \<Rightarrow> Some (k + n, (if is_grp it then [take k s] else []) @ gs))
       (cands it prev s)"

record re_match =
  m_start :: nat
  m_end :: nat
  m_groups :: "string list"

text \<open>\<^verbatim>\<open>re.search\<close>: the match at the leftmost position that has one.\<close>

fun search_from :: "item list \<Rightarrow> nat \<Rightarrow> char option \<Rightarrow> string \<Rightarrow> re_match option" where
  "search_from p i prev [] =
     (case match_items p prev [] of
        Some (n, gs) \<Rightarrow> Some \<lparr>m_start = i, m_end = i + n, m_groups = gs\<rparr>
      | None \<Rightarrow> None)"
| "search_from p i prev (c # cs) =
     (case match_items p prev (c # cs) of
        Some (n, gs) \<Rightarrow> Some \<lparr>m_start = i, m_end = i + n, m_groups = gs\<rparr>
      | None \<Rightarrow> search_from p (Suc i) (Some c) cs)"

definition re_search :: "item list \<Rightarrow> string \<Rightarrow> re_match option" where
  "re_search p s = search_from p 0 None s"

text \<open>\<^verbatim>\<open>re.match\<close>: a match at the start of the string only.\<close>

definition re_match_start :: "item list \<Rightarrow> string \<Rightarrow> re_match option" where
  "re_match_start p s =
     (case match_items p None s of
        Some (n, gs) \<Rightarrow> Some \<lparr>m_start = 0, m_end = n, m_groups = gs\<rparr>
      | None \<Rightarrow> None)"

text \<open>\<^verbatim>\<open>match.group(i)\<close> for \<open>i \<ge> 1\<close>.\<close>

definition group :: "re_match \<Rightarrow> nat \<Rightarrow> py_exn + string" where
  "group m i =
     (if 1 \<le> i \<and> i \<le> length (m_groups m) then Inr (m_groups m ! (i - 1)) else Inl IndexError)"

text \<open>
  The scan behind \<^verbatim>\<open>re.sub\<close> and \<^verbatim>\<open>re.findall\<close>: the non-overlapping matches from left
  to right, and the characters between them. A match of length 0 (no pattern of the parser
  has one) is recorded and the scan moves one character on.
\<close>

datatype seg = Keep char | Hit string

fun re_scan :: "item list \<Rightarrow> char option \<Rightarrow> string \<Rightarrow> seg list" where
  "re_scan p prev [] = (case match_items p prev [] of Some _ \<Rightarrow> [Hit []] | None \<Rightarrow> [])"
| "re_scan p prev (c # cs) =
     (case match_items p prev (c # cs) of
        None \<Rightarrow> Keep c # re_scan p (Some c) cs
      | Some (n, gs) \<Rightarrow>
          (if n = 0 then Hit [] # Keep c # re_scan p (Some c) cs
           else Hit (take n (c # cs)) # re_scan p (Some (last (take n (c # cs)))) (drop (n - 1) cs)))"

definition re_sub :: "item list \<Rightarrow> string \<Rightarrow> string \<Rightarrow> string" where
  "re_sub p repl s = concat (map (\<lambda>g. case g of Keep c \<Rightarrow> [c] | Hit _ \<Rightarrow> repl) (re_scan p None s))"

text \<open>\<^verbatim>\<open>re.findall\<close> for a pattern without groups: the matched texts.\<close>

definition re_findall :: "item list \<Rightarrow> string \<Rightarrow> string list" where
  "re_findall p s = concat (map (\<lambda>g. case g of Keep _ \<Rightarrow> [] | Hit m \<Rightarrow> [m]) (re_scan p None s))"

section \<open>The query builder\<close>

record opensearch_query_builder =
  default_size :: int
  default_sort' :: json

definition TIMESTAMP_FIELD :: string where
  "TIMESTAMP_FIELD = ''@timestamp''"

definition OpenSearchQueryBuilder_init :: opensearch_query_builder where
  "OpenSearchQueryBuilder_init =
     \<lparr>default_size = 50, default_sort' = JList [JDict [(TIMESTAMP_FIELD, JStr ''desc'')]]\<rparr>"

definition build_base_query :: "opensearch_query_builder \<Rightarrow> int option \<Rightarrow> json" where
  "build_base_query self size' =
     JDict [(''size'', JInt (case size' of Some n \<Rightarrow> n | None \<Rightarrow> default_size self)),
            (''sort'', default_sort' self)]"

text \<open>An argument left at its default \<^verbatim>\<open>None\<close>, or an empty list, is falsy.\<close>

fun truthy_list :: "'a list option \<Rightarrow> bool" where
  "truthy_list None = False"
| "truthy_list (Some xs) = (xs \<noteq> [])"

definition build_bool_query ::
  "json list option \<Rightarrow> json list option \<Rightarrow> json list option \<Rightarrow> json list option \<Rightarrow> json" where
  "build_bool_query must should must_not filter_arg =
     (let bool_query = [];
          bool_query = (if truthy_list must
                        then AList.update ''must'' (JList (the must)) bool_query else bool_query);
          bool_query = (if truthy_list should
                        then AList.update ''should'' (JList (the should)) bool_query else bool_query);
          bool_query = (if truthy_list must_not
                        then AList.update ''must_not'' (JList (the must_not)) bool_query else bool_query);
          bool_query = (if truthy_list filter_arg
                        then AList.update ''filter'' (JList (the filter_arg)) bool_query else bool_query)
      in JDict [(''bool'', JDict bool_query)])"

definition time_map :: "(string \<times> string) list" where
  "time_map =
     [(''minute'', ''m''), (''minutes'', ''m''), (''min'', ''m''),
      (''hour'', ''h''), (''hours'', ''h''), (''hr'', ''h''), (''hrs'', ''h''),
      (''day'', ''d''), (''days'', ''d''),
      (''week'', ''w''), (''weeks'', ''w''),
      (''month'', ''M''), (''months'', ''M''),
      (''year'', ''y''), (''years'', ''y'')]"

text \<open>\<^verbatim>\<open>d[k]\<close>, which raises on a missing key.\<close>

definition subscript :: "(string \<times> 'v) list \<Rightarrow> string \<Rightarrow> py_exn + 'v" where
  "subscript d k = (case map_of d k of Some v \<Rightarrow> Inr v | None \<Rightarrow> Inl KeyError)"

text \<open>
  \<^verbatim>\<open>last\s+(\d+)\s+(minute|minutes|min|hour|hours|hr|hrs|day|days|week|weeks|month|months|year|years)\<close>
\<close>

definition time_pattern :: "item list" where
  "time_pattern =
     [Lit ''last'', Plus [Esc_s], Grp (Plus [Esc_d]), Plus [Esc_s],
      Grp (Alt [''minute'', ''minutes'', ''min'', ''hour'', ''hours'', ''hr'', ''hrs'',
                ''day'', ''days'', ''week'', ''weeks'', ''month'', ''months'', ''year'', ''years''])]"

definition build_time_range :: "string \<Rightarrow> py_exn + json option" where
  "build_time_range time_spec =
     (case re_search time_pattern (lower time_spec) of
        Some m \<Rightarrow>
          (case group m 1 of Inl e \<Rightarrow> Inl e | Inr amount \<Rightarrow>
           case group m 2 of Inl e \<Rightarrow> Inl e | Inr unit \<Rightarrow>
           case subscript time_map unit of Inl e \<Rightarrow> Inl e | Inr elastic_unit \<Rightarrow>
             Inr (Some (JDict [(''range'',
                    JDict [(TIMESTAMP_FIELD, JDict [(''gte'', JStr (''now-'' @ amount @ elastic_unit))])])])))
      | None \<Rightarrow>
          if sublist ''today'' (lower time_spec)
          then Inr (Some (JDict [(''range'', JDict [(TIMESTAMP_FIELD, JDict [(''gte'', JStr ''now/d'')])])]))
          else if sublist ''yesterday'' (lower time_spec)
          then Inr (Some (JDict [(''range'',
                 JDict [(TIMESTAMP_FIELD, JDict [(''gte'', JStr ''now-1d/d''), (''lt'', JStr ''now/d'')])])]))
          else Inr None)"

definition build_service_filter :: "string \<Rightarrow> json" where
  "build_service_filter service_name = JDict [(''match'', JDict [(''service.name'', JStr service_name)])]"

definition build_log_level_filter :: "string \<Rightarrow> json" where
  "build_log_level_filter level = JDict [(''match'', JDict [(''log.level'', JStr (lower level))])]"

definition build_text_search :: "string \<Rightarrow> string \<Rightarrow> json" where
  "build_text_search text_arg field =
     (if field = ''_all'' then JDict [(''match'', JDict [(''_all'', JStr text_arg)])]
      else JDict [(''match'', JDict [(field, JStr text_arg)])])"

section \<open>The parser\<close>

text \<open>
  The parser object: its query builder, and of its logger the one thing the constructor's
  argument decides, whether log lines are written (they go to the log stream, never into
  the value \<^verbatim>\<open>parse\<close> returns).
\<close>

record nlq_parser =
  query_builder :: opensearch_query_builder
  logging_enabled :: bool

definition NLQParser_init :: "bool \<Rightarrow> nlq_parser" where
  "NLQParser_init enable_logging =
     \<lparr>query_builder = OpenSearchQueryBuilder_init, logging_enabled = enable_logging\<rparr>"

definition unsupported_keywords :: "string list" where
  "unsupported_keywords =
     [''create'', ''delete'', ''update'', ''insert'', ''put'', ''post'', ''mapping'', ''mappings'',
      ''index'', ''reindex'', ''bulk'', ''scroll'', ''aggregate'', ''aggregation'', ''pipeline'',
      ''template'', ''settings'', ''alias'', ''aliases'', ''snapshot'', ''restore'', ''backup'']"

definition modify_patterns :: "item list list" where
  "modify_patterns =
     [[Lit ''create'', Plus [Esc_s], Grp (Alt [''index'', ''mapping''])],
      [Lit ''delete'', Plus [Esc_s], Grp (Alt [''index'', ''document''])],
      [Lit ''update'', Plus [Esc_s], Grp (Alt [''mapping'', ''document'', ''settings''])],
      [Lit ''insert'', Plus [Esc_s]],
      [Lit ''add'', Plus [Esc_s], Grp (Alt [''field'', ''mapping'', ''alias''])],
      [Lit ''remove'', Plus [Esc_s], Grp (Alt [''field'', ''mapping'', ''alias''])],
      [Lit ''modify'', Plus [Esc_s]],
      [Lit ''change'', Plus [Esc_s], Grp (Alt [''mapping'', ''settings''])]]"

definition is_unsupported_query :: "string \<Rightarrow> bool" where
  "is_unsupported_query query =
     (if list_ex (\<lambda>keyword. sublist keyword query) unsupported_keywords then True
      else if list_ex (\<lambda>pattern. re_search pattern query \<noteq> None) modify_patterns then True
      else False)"

definition cluster_keywords :: "string list" where
  "cluster_keywords = [''cluster health'', ''cluster status'', ''node'', ''shard'']"

definition is_cluster_query :: "string \<Rightarrow> bool" where
  "is_cluster_query query = list_ex (\<lambda>keyword. sublist keyword query) cluster_keywords"

definition cat_patterns :: "item list list" where
  "cat_patterns =
     [[WordB, Lit ''list'', Plus [Esc_s], Lit ''indices'', WordB],
      [WordB, Lit ''show'', Plus [Esc_s], Lit ''indices'', WordB],
      [WordB, Lit ''list'', Plus [Esc_s], Lit ''nodes'', WordB],
      [WordB, Lit ''show'', Plus [Esc_s], Lit ''nodes'', WordB],
      [WordB, Lit ''list'', Plus [Esc_s], Lit ''shards'', WordB],
      [WordB, Lit ''show'', Plus [Esc_s], Lit ''shards'', WordB],
      [WordB, Lit ''cat'', Plus [Esc_s]]]"

definition is_cat_query :: "string \<Rightarrow> bool" where
  "is_cat_query query = list_ex (\<lambda>pattern. re_search pattern query \<noteq> None) cat_patterns"

definition handle_cluster_query :: "string \<Rightarrow> json" where
  "handle_cluster_query query =
     (if sublist ''health'' query \<or> sublist ''status'' query then JDict [(''api'', JStr ''_cluster/health'')]
      else if sublist ''node'' query then JDict [(''api'', JStr ''_cat/nodes?v'')]
      else JDict [(''error'', JStr ''Unsupported cluster query. Please rephrase or check available APIs.'')])"

definition handle_cat_query :: "string \<Rightarrow> json" where
  "handle_cat_query query =
     (if sublist ''indices'' query \<or> sublist ''index'' query then JDict [(''api'', JStr ''_cat/indices?v'')]
      else if sublist ''nodes'' query then JDict [(''api'', JStr ''_cat/nodes?v'')]
      else if sublist ''shards'' query then JDict [(''api'', JStr ''_cat/shards?v'')]
      else JDict [(''error'', JStr ''Unsupported cat query. Please rephrase or check available APIs.'')])"

definition levels :: "string list" where
  "levels = [''error'', ''errors'', ''warn'', ''warning'', ''warnings'', ''info'', ''debug'', ''trace'']"

definition extract_log_level :: "string \<Rightarrow> string option" where
  "extract_log_level query =
     first_some
       (\<lambda>level. if sublist level query
                 then (if level = ''errors'' then Some ''error''
                       else if level \<in> set [''warn'', ''warning'', ''warnings''] then Some ''warn''
                       else Some level)
                 else None)
       levels"

text \<open>\<^verbatim>\<open>[a-zA-Z0-9\-_]\<close>\<close>

definition name_class :: "cset list" where
  "name_class = [Range CHR ''a'' CHR ''z'', Range CHR ''A'' CHR ''Z'', Range CHR ''0'' CHR ''9'',
                 One CHR ''-'', One CHR ''_'']"

definition service_name_patterns :: "item list list" where
  "service_name_patterns =
     [[Lit ''for'', Plus [Esc_s], Grp (Plus name_class), Star [One CHR ''-'', Esc_s], Lit ''service''],
      [Lit ''in'', Plus [Esc_s], Grp (Plus name_class), Star [One CHR ''-'', Esc_s], Lit ''service''],
      [Grp (Plus name_class), Star [One CHR ''-'', Esc_s], Lit ''service''],
      [Lit ''service'', Plus [Esc_s], Grp (Plus name_class)]]"

fun extract_service_name_loop :: "item list list \<Rightarrow> string \<Rightarrow> py_exn + string option" where
  "extract_service_name_loop [] query = Inr None"
| "extract_service_name_loop (pattern # patterns) query =
     (case re_search pattern query of
        Some m \<Rightarrow>
          (case group m 1 of Inl e \<Rightarrow> Inl e | Inr service_name \<Rightarrow>
             if endswith service_name ''-'' then Inr (Some (service_name @ ''service''))
             else Inr (Some service_name))
      | None \<Rightarrow> extract_service_name_loop patterns query)"

definition extract_service_name :: "string \<Rightarrow> py_exn + string option" where
  "extract_service_name query = extract_service_name_loop service_name_patterns query"

definition extract_time_range :: "string \<Rightarrow> py_exn + json option" where
  "extract_time_range query = build_time_range query"

definition stop_words :: "string list" where
  "stop_words =
     [''get'', ''show'', ''find'', ''search'', ''logs'', ''log'', ''details'', ''of'', ''in'', ''for'',
      ''last'', ''minutes'', ''minute'', ''hours'', ''hour'', ''days'', ''day'', ''service'', ''errors'',
      ''error'', ''warnings'', ''warning'', ''info'', ''debug'', ''trace'', ''the'', ''and'', ''with'',
      ''want'', ''checkout'', ''payment'', ''user'', ''auth'', ''authentication'', ''from'', ''me'',
      ''cluster'', ''health'', ''status'', ''list'', ''nodes'', ''indices'', ''shards'', ''top'',
      ''results'', ''limit'', ''first'', ''today'', ''yesterday'', ''complex'', ''unsupported'',
      ''that'', ''should'', ''fail'', ''query'', ''api'', ''to'', ''a'', ''an'', ''is'', ''are'', ''was'',
      ''were'', ''be'', ''been'', ''being'', ''have'', ''has'', ''had'', ''do'', ''does'', ''did'']"

definition service_patterns :: "item list list" where
  "service_patterns =
     [[Lit ''for'', Plus [Esc_s], Plus name_class, Star [One CHR ''-'', Esc_s], Lit ''service''],
      [Lit ''in'', Plus [Esc_s], Plus name_class, Star [One CHR ''-'', Esc_s], Lit ''service''],
      [Plus name_class, Star [One CHR ''-'', Esc_s], Lit ''service'']]"

definition time_patterns :: "item list list" where
  "time_patterns =
     [[Lit ''last'', Plus [Esc_s], Plus [Esc_d], Plus [Esc_s], Plus [Esc_w]],
      [Lit ''today''],
      [Lit ''yesterday'']]"

text \<open>\<^verbatim>\<open>\b(error|errors|warn|warning|warnings|info|debug|trace)\b\<close>\<close>

definition level_word_pattern :: "item list" where
  "level_word_pattern =
     [WordB, Grp (Alt [''error'', ''errors'', ''warn'', ''warning'', ''warnings'', ''info'', ''debug'', ''trace'']),
      WordB]"

text \<open>\<^verbatim>\<open>\b[a-zA-Z]+\b\<close>\<close>

definition word_pattern :: "item list" where
  "word_pattern = [WordB, Plus [Range CHR ''a'' CHR ''z'', Range CHR ''A'' CHR ''Z''], WordB]"

definition extract_search_terms :: "string \<Rightarrow> string list" where
  "extract_search_terms query =
     (let temp_query = lower query;
          temp_query = foldl (\<lambda>t pattern. re_sub pattern [] t) temp_query service_patterns;
          temp_query = foldl (\<lambda>t pattern. re_sub pattern [] t) temp_query time_patterns;
          temp_query = re_sub level_word_pattern [] temp_query;
          words = re_findall word_pattern temp_query
      in filter (\<lambda>word. lower word \<notin> set stop_words \<and> length word > 2 \<and>
                         re_match_start [Plus [Esc_d]] word = None) words)"

definition size_patterns :: "item list list" where
  "size_patterns =
     [[Lit ''show'', Plus [Esc_s], Grp (Plus [Esc_d]), Plus [Esc_s], Lit ''result'', Opt CHR ''s''],
      [Lit ''limit'', Plus [Esc_s], Grp (Plus [Esc_d])],
      [Lit ''top'', Plus [Esc_s], Grp (Plus [Esc_d])],
      [Lit ''first'', Plus [Esc_s], Grp (Plus [Esc_d])]]"

fun extract_size_loop :: "item list list \<Rightarrow> string \<Rightarrow> py_exn + int option" where
  "extract_size_loop [] query = Inr None"
| "extract_size_loop (pattern # patterns) query =
     (case re_search pattern query of
        Some m \<Rightarrow>
          (case group m 1 of Inl e \<Rightarrow> Inl e | Inr g \<Rightarrow>
           case py_int g of Inl e \<Rightarrow> Inl e | Inr n \<Rightarrow> Inr (Some n))
      | None \<Rightarrow> extract_size_loop patterns query)"

definition extract_size :: "string \<Rightarrow> py_exn + int option" where
  "extract_size query = extract_size_loop size_patterns query"

definition error_message :: string where
  "error_message = ''Unsupported query. Please rephrase or check available APIs.''"

text \<open>
  \<^verbatim>\<open>_parse_to_dict\<close>. The list \<open>must_clauses\<close> is appended to in the order of the source's
  statements; \<^verbatim>\<open>if x:\<close> is the truth value Python gives \<open>x\<close> (\<^verbatim>\<open>None\<close>, the empty
  string, the empty list, the empty dictionary and the integer 0 are false).
\<close>

definition parse_to_dict :: "nlq_parser \<Rightarrow> string \<Rightarrow> py_exn + json" where
  "parse_to_dict self natural_query =
     (let query = strip (lower natural_query) in
      if is_unsupported_query query then Inr (JDict [(''error'', JStr error_message)])
      else
        let result = build_base_query (query_builder self) None;
            must_clauses = []
        in
        if is_cluster_query query then Inr (handle_cluster_query query)
        else if is_cat_query query then Inr (handle_cat_query query)
        else
          let log_level = extract_log_level query;
              must_clauses = (case log_level of
                                Some l \<Rightarrow> if l \<noteq> [] then must_clauses @ [build_log_level_filter l]
                                          else must_clauses
                              | None \<Rightarrow> must_clauses)
          in
          case extract_service_name query of Inl e \<Rightarrow> Inl e | Inr service_name \<Rightarrow>
          let must_clauses = (case service_name of
                                Some n \<Rightarrow> if n \<noteq> [] then must_clauses @ [build_service_filter n]
                                          else must_clauses
                              | None \<Rightarrow> must_clauses)
          in
          case extract_time_range query of Inl e \<Rightarrow> Inl e | Inr time_filter \<Rightarrow>
          let must_clauses = (case time_filter of
                                Some f \<Rightarrow> if f \<noteq> JDict [] then must_clauses @ [f] else must_clauses
                              | None \<Rightarrow> must_clauses);
              search_terms = extract_search_terms query;
              must_clauses = (if search_terms \<noteq> []
                              then foldl (\<lambda>acc term. acc @ [build_text_search term ''_all'']) must_clauses search_terms
                              else must_clauses)
          in
          case extract_size query of Inl e \<Rightarrow> Inl e | Inr size' \<Rightarrow>
          let result = (case result of
                          JDict kvs \<Rightarrow>
                            (case size' of
                               Some n \<Rightarrow> if n \<noteq> 0 then JDict (AList.update ''size'' (JInt n) kvs) else result
                             | None \<Rightarrow> result)
                        | _ \<Rightarrow> result);
              result = (case result of
                          JDict kvs \<Rightarrow>
                            if must_clauses \<noteq> []
                            then JDict (AList.update ''query'' (build_bool_query (Some must_clauses) None None None) kvs)
                            else JDict (AList.update ''query'' (JDict [(''match_all'', JDict [])]) kvs)
                        | _ \<Rightarrow> result)
          in Inr result)"

text \<open>
  \<^verbatim>\<open>parse\<close>: the dictionary in compact form; an exception of \<^verbatim>\<open>_parse_to_dict\<close> is
  caught and answered with the error dictionary in the default form of \<^verbatim>\<open>json.dumps\<close>.
\<close>

definition parse :: "nlq_parser \<Rightarrow> string \<Rightarrow> string" where
  "parse self natural_query =
     (case parse_to_dict self natural_query of
        Inr query_dict \<Rightarrow> dumps_compact query_dict
      | Inl e \<Rightarrow> dumps_default (JDict [(''error'', JStr error_message)]))"

text \<open>
  A call of \<^verbatim>\<open>parse\<close> on the parser object: the returned string and the object after the
  call. \<^verbatim>\<open>parse\<close> and the methods it calls assign to no attribute of the parser or of its
  query builder (\<open>result\<close> and \<open>must_clauses\<close> are local), so the object is the one given.
\<close>

definition parse_call :: "nlq_parser \<Rightarrow> string \<Rightarrow> string \<times> nlq_parser" where
  "parse_call self natural_query = (parse self natural_query, self)"


section \<open>The specification's words\<close>

text \<open>
  The normalised utterance, and the search intent: none of the unsupported, cluster and cat
  checks fires.
\<close>

definition normalise :: "string \<Rightarrow> string" where
  "normalise u = strip (lower u)"

definition search_intent :: "string \<Rightarrow> bool" where
  "search_intent u =
     (\<not> is_unsupported_query (normalise u) \<and> \<not> is_cluster_query (normalise u) \<and>
      \<not> is_cat_query (normalise u))"

text \<open>
  The clauses of the specification, each present if its facet was extracted: the level
  clause, the service clause, the time-range clause, and one match clause per search term.
\<close>

definition level_clause :: "string \<Rightarrow> json list" where
  "level_clause q =
     (case extract_log_level q of
        Some level \<Rightarrow> [JDict [(''match'', JDict [(''log.level'', JStr level)])]]
      | None \<Rightarrow> [])"

definition service_clause :: "string \<Rightarrow> json list" where
  "service_clause q =
     (case extract_service_name q of
        Inr (Some name) \<Rightarrow> [JDict [(''match'', JDict [(''service.name'', JStr name)])]]
      | _ \<Rightarrow> [])"

definition time_clause :: "string \<Rightarrow> json list" where
  "time_clause q = (case extract_time_range q of Inr (Some clause) \<Rightarrow> [clause] | _ \<Rightarrow> [])"

definition term_clauses :: "string \<Rightarrow> json list" where
  "term_clauses q =
     map (\<lambda>term. JDict [(''match'', JDict [(''_all'', JStr term)])]) (extract_search_terms q)"

definition must_list_spec :: "string \<Rightarrow> json list" where
  "must_list_spec q = level_clause q @ service_clause q @ time_clause q @ term_clauses q"

text \<open>The short unit codes of the specification: m, h, d, w, M (month), y.\<close>

definition unit_code_spec :: "string \<Rightarrow> string" where
  "unit_code_spec unit =
     (if unit \<in> set [''minute'', ''minutes'', ''min''] then ''m''
      else if unit \<in> set [''hour'', ''hours'', ''hr'', ''hrs''] then ''h''
      else if unit \<in> set [''day'', ''days''] then ''d''
      else if unit \<in> set [''week'', ''weeks''] then ''w''
      else if unit \<in> set [''month'', ''months''] then ''M''
      else ''y'')"


section \<open>Facts about the matcher\<close>

subsection \<open>First success, literals and groups of a match\<close>

lemma first_some_SomeD:
  "first_some f xs = Some y \<Longrightarrow> \<exists>x \<in> set xs. f x = Some y"
  by (induction xs) (auto split: option.splits)

lemma first_some_None_iff:
  "first_some f xs = None \<longleftrightarrow> (\<forall>x \<in> set xs. f x = None)"
  by (induction xs) (auto split: option.splits)





lemma match_items_groups:
  "match_items p prev s = Some (n, gs) \<Longrightarrow> length gs = length (filter is_grp p)"
proof (induction p arbitrary: prev s n gs)
  case Nil
  then show ?case by simp
next
  case (Cons it its)
  from Cons.prems obtain k n' gs' where
    m: "match_items its (prev_after prev s k) (drop k s) = Some (n', gs')"
    and g: "gs = (if is_grp it then [take k s] else []) @ gs'"
    by (auto dest!: first_some_SomeD split: option.splits)
  from Cons.IH[OF m] g show ?case by simp
qed

lemma search_from_groups:
  "search_from p i prev s = Some m \<Longrightarrow> length (m_groups m) = length (filter is_grp p)"
  by (induction s arbitrary: i prev) (auto split: option.splits dest: match_items_groups)

lemma re_search_groups:
  "re_search p s = Some m \<Longrightarrow> length (m_groups m) = length (filter is_grp p)"
  unfolding re_search_def by (rule search_from_groups)

lemma err_compact: \<open>dumps_compact (JDict [(''error'', JStr error_message)]) = ''{"error":"Unsupported query. Please rephrase or check available APIs."}''\<close>
  by code_simp


lemma match_items_ConsD:
  "match_items (it # its) prev s = Some (n, gs) \<Longrightarrow>
   \<exists>k \<in> set (cands it prev s). \<exists>n' gs'.
      match_items its (prev_after prev s k) (drop k s) = Some (n', gs') \<and>
      n = k + n' \<and> gs = (if is_grp it then [take k s] else []) @ gs'"
proof -
  assume "match_items (it # its) prev s = Some (n, gs)"
  then have "first_some
       (\<lambda>k. case match_items its (prev_after prev s k) (drop k s) of
              None \<Rightarrow> None
            | Some (n, gs) \<Rightarrow> Some (k + n, (if is_grp it then [take k s] else []) @ gs))
       (cands it prev s) = Some (n, gs)" by simp
  from first_some_SomeD[OF this] obtain k where k: "k \<in> set (cands it prev s)"
    and r: "(case match_items its (prev_after prev s k) (drop k s) of
              None \<Rightarrow> None
            | Some (n, gs) \<Rightarrow> Some (k + n, (if is_grp it then [take k s] else []) @ gs)) = Some (n, gs)"
    by blast
  from r obtain n' gs' where "match_items its (prev_after prev s k) (drop k s) = Some (n', gs')"
    "n = k + n'" "gs = (if is_grp it then [take k s] else []) @ gs'"
    by (cases "match_items its (prev_after prev s k) (drop k s)") auto
  with k show ?thesis by blast
qed

lemma search_from_matchD:
  "search_from p i prev s = Some m \<Longrightarrow> \<exists>prev' s' n. match_items p prev' s' = Some (n, m_groups m)"
proof (induction s arbitrary: i prev)
  case Nil
  then obtain a b where "match_items p prev [] = Some (a, b)" "m_groups m = b"
    by (cases "match_items p prev []") auto
  then show ?case by blast
next
  case (Cons c cs)
  show ?case
  proof (cases "match_items p prev (c # cs)")
    case None
    with Cons show ?thesis by simp
  next
    case (Some r)
    with Cons.prems obtain a b where "match_items p prev (c # cs) = Some (a, b)" "m_groups m = b"
      by (cases r) auto
    then show ?thesis by blast
  qed
qed

lemma re_search_matchD:
  "re_search p s = Some m \<Longrightarrow> \<exists>prev' s' n. match_items p prev' s' = Some (n, m_groups m)"
  unfolding re_search_def by (rule search_from_matchD)

lemma take_takeWhile_le:
  "k \<le> length (takeWhile P s) \<Longrightarrow> take k s = take k (takeWhile P s)"
proof -
  assume k: "k \<le> length (takeWhile P s)"
  have "take k s = take k (takeWhile P s @ dropWhile P s)" by simp
  also have "\<dots> = take k (takeWhile P s)" using k by (simp del: takeWhile_dropWhile_id)
  finally show ?thesis .
qed

lemma cands_Plus_take:
  assumes "k \<in> set (cands (Plus cs) prev s)"
  shows "take k s \<noteq> [] \<and> list_all (in_class cs) (take k s)"
proof -
  from assms have k: "0 < k" "k \<le> length (takeWhile (in_class cs) s)" by auto
  then have t: "take k s = take k (takeWhile (in_class cs) s)" by (simp add: take_takeWhile_le)
  have "\<forall>c \<in> set (take k (takeWhile (in_class cs) s)). in_class cs c"
    by (meson in_set_takeD set_takeWhileD)
  with t have "list_all (in_class cs) (take k s)" by (simp add: list_all_iff)
  moreover from k have "take k s \<noteq> []" by (cases s) auto
  ultimately show ?thesis by simp
qed

lemma match_items_first_group:
  "match_items (pre @ Grp (Plus cs) # post) prev s = Some (n, gs) \<Longrightarrow> filter is_grp pre = [] \<Longrightarrow>
   \<exists>g gs'. gs = g # gs' \<and> g \<noteq> [] \<and> list_all (in_class cs) g"
proof (induction pre arbitrary: prev s n gs)
  case Nil
  then have "match_items (Grp (Plus cs) # post) prev s = Some (n, gs)" by simp
  from match_items_ConsD[OF this] obtain k gs' where
    "k \<in> set (cands (Grp (Plus cs)) prev s)" "gs = (if is_grp (Grp (Plus cs)) then [take k s] else []) @ gs'"
    by blast
  then have "k \<in> set (cands (Plus cs) prev s)" "gs = take k s # gs'" by simp_all
  then show ?case using cands_Plus_take by blast
next
  case (Cons it pre)
  from Cons.prems(2) have ng: "\<not> is_grp it" "filter is_grp pre = []" by (auto split: if_splits)
  from Cons.prems(1) have "match_items (it # (pre @ Grp (Plus cs) # post)) prev s = Some (n, gs)" by simp
  from match_items_ConsD[OF this] ng(1) obtain k n' where
    "match_items (pre @ Grp (Plus cs) # post) (prev_after prev s k) (drop k s) = Some (n', gs)"
    by auto
  then show ?case using Cons.IH ng(2) by blast
qed

lemma re_search_first_group:
  assumes "re_search (pre @ Grp (Plus cs) # post) s = Some m" "filter is_grp pre = []"
  shows "\<exists>g. group m 1 = Inr g \<and> g \<noteq> [] \<and> list_all (in_class cs) g"
proof -
  from re_search_matchD[OF assms(1)] obtain prev' s' n where
    "match_items (pre @ Grp (Plus cs) # post) prev' s' = Some (n, m_groups m)" by blast
  from match_items_first_group[OF this assms(2)] show ?thesis
    by (auto simp: group_def)
qed

lemma in_class_digit [simp]: "in_class [Esc_d] c = is_digit c"
  by (simp add: in_class_def)

subsection \<open>The extractors do not raise\<close>

lemma extract_size_loop_Inr:
  "(\<And>p. p \<in> set ps \<Longrightarrow> \<exists>pre post. p = pre @ Grp (Plus [Esc_d]) # post \<and> filter is_grp pre = []) \<Longrightarrow>
   \<exists>r. extract_size_loop ps q = Inr r"
proof (induction ps)
  case Nil
  then show ?case by simp
next
  case (Cons p ps)
  show ?case
  proof (cases "re_search p q")
    case None
    with Cons show ?thesis by simp
  next
    case (Some m)
    from Cons.prems[of p] obtain pre post where
      p: "p = pre @ Grp (Plus [Esc_d]) # post" "filter is_grp pre = []" by auto
    from re_search_first_group[OF Some[unfolded p(1)] p(2)] obtain g where
      "group m 1 = Inr g" "g \<noteq> []" "list_all is_digit g"
      by (auto simp: list_all_iff)
    with Some show ?thesis by (simp add: py_int_def)
  qed
qed

lemma size_patterns_shape:
  "p \<in> set size_patterns \<Longrightarrow> \<exists>pre post. p = pre @ Grp (Plus [Esc_d]) # post \<and> filter is_grp pre = []"
  unfolding size_patterns_def
  apply simp
  apply (elim disjE)
     apply (rule exI[of _ "[Lit ''show'', Plus [Esc_s]]"], simp)
    apply (rule exI[of _ "[Lit ''limit'', Plus [Esc_s]]"], simp)
   apply (rule exI[of _ "[Lit ''top'', Plus [Esc_s]]"], simp)
  apply (rule exI[of _ "[Lit ''first'', Plus [Esc_s]]"], simp)
  done

lemma extract_size_Inr: "\<exists>r. extract_size q = Inr r"
  unfolding extract_size_def by (rule extract_size_loop_Inr) (rule size_patterns_shape)

lemma extract_service_name_loop_Inr:
  "(\<And>p. p \<in> set ps \<Longrightarrow> \<exists>pre post. p = pre @ Grp (Plus name_class) # post \<and> filter is_grp pre = []) \<Longrightarrow>
   \<exists>r. extract_service_name_loop ps q = Inr r \<and> r \<noteq> Some []"
proof (induction ps)
  case Nil
  then show ?case by simp
next
  case (Cons p ps)
  show ?case
  proof (cases "re_search p q")
    case None
    with Cons show ?thesis by simp
  next
    case (Some m)
    from Cons.prems[of p] obtain pre post where
      p: "p = pre @ Grp (Plus name_class) # post" "filter is_grp pre = []" by auto
    from re_search_first_group[OF Some[unfolded p(1)] p(2)] obtain g where
      "group m 1 = Inr g" "g \<noteq> []" by auto
    with Some show ?thesis by simp
  qed
qed

lemma service_name_patterns_shape:
  "p \<in> set service_name_patterns \<Longrightarrow> \<exists>pre post. p = pre @ Grp (Plus name_class) # post \<and> filter is_grp pre = []"
  unfolding service_name_patterns_def
  apply simp
  apply (elim disjE)
     apply (rule exI[of _ "[Lit ''for'', Plus [Esc_s]]"], simp)
    apply (rule exI[of _ "[Lit ''in'', Plus [Esc_s]]"], simp)
   apply (rule exI[of _ "[]"], simp)
  apply (rule exI[of _ "[Lit ''service'', Plus [Esc_s]]"], simp)
  done

lemma extract_service_name_Inr: "\<exists>r. extract_service_name q = Inr r \<and> r \<noteq> Some []"
  unfolding extract_service_name_def
  by (rule extract_service_name_loop_Inr) (rule service_name_patterns_shape)

lemma match_items_skip:
  assumes "match_items (it # its) prev s = Some (n, gs)" "\<not> is_grp it"
  shows "\<exists>prev' s' n'. match_items its prev' s' = Some (n', gs)"
  using match_items_ConsD[OF assms(1)] assms(2) by auto

lemma match_items_Grp_Plus:
  assumes "match_items (Grp (Plus cs) # its) prev s = Some (n, gs)"
  shows "\<exists>g gs' prev' s' n'. gs = g # gs' \<and> g \<noteq> [] \<and> list_all (in_class cs) g \<and>
           match_items its prev' s' = Some (n', gs')"
proof -
  from match_items_ConsD[OF assms] obtain k n' gs' where
    k: "k \<in> set (cands (Grp (Plus cs)) prev s)"
    and m: "match_items its (prev_after prev s k) (drop k s) = Some (n', gs')"
    and g: "gs = (if is_grp (Grp (Plus cs)) then [take k s] else []) @ gs'"
    by blast
  from k have "k \<in> set (cands (Plus cs) prev s)" by simp
  from cands_Plus_take[OF this] g m show ?thesis by auto
qed

lemma match_items_Grp_Alt:
  assumes "match_items (Grp (Alt ls) # its) prev s = Some (n, gs)"
  shows "\<exists>l \<in> set ls. \<exists>gs' prev' s' n'. gs = l # gs' \<and> prefix l s \<and>
           match_items its prev' s' = Some (n', gs')"
proof -
  from match_items_ConsD[OF assms] obtain k n' gs' where
    k: "k \<in> set (cands (Grp (Alt ls)) prev s)"
    and m: "match_items its (prev_after prev s k) (drop k s) = Some (n', gs')"
    and g: "gs = (if is_grp (Grp (Alt ls)) then [take k s] else []) @ gs'"
    by blast
  from k obtain l where l: "l \<in> set ls" "prefix l s" "k = length l" by auto
  from l(2,3) have "take k s = l" by (auto simp: prefix_def)
  with g m l show ?thesis by auto
qed

lemma time_pattern_groups:
  assumes "match_items time_pattern prev s = Some (n, gs)"
  shows "\<exists>amount unit. gs = [amount, unit] \<and> amount \<noteq> [] \<and> list_all is_digit amount \<and>
           unit \<in> set (map fst time_map)"
proof -
  let ?units = "[''minute'', ''minutes'', ''min'', ''hour'', ''hours'', ''hr'', ''hrs'',
                ''day'', ''days'', ''week'', ''weeks'', ''month'', ''months'', ''year'', ''years'']"
  from assms obtain p1 s1 n1 where
    "match_items [Plus [Esc_s], Grp (Plus [Esc_d]), Plus [Esc_s], Grp (Alt ?units)] p1 s1 = Some (n1, gs)"
    unfolding time_pattern_def using match_items_skip by (metis is_grp.simps(2))
  then obtain p2 s2 n2 where
    "match_items [Grp (Plus [Esc_d]), Plus [Esc_s], Grp (Alt ?units)] p2 s2 = Some (n2, gs)"
    using match_items_skip by (metis is_grp.simps(3))
  from match_items_Grp_Plus[OF this] obtain amount gs3 p3 s3 n3 where
    a: "gs = amount # gs3" "amount \<noteq> []" "list_all is_digit amount"
    and "match_items [Plus [Esc_s], Grp (Alt ?units)] p3 s3 = Some (n3, gs3)"
    by (auto simp: list_all_iff)
  then obtain p4 s4 n4 where
    "match_items [Grp (Alt ?units)] p4 s4 = Some (n4, gs3)"
    using match_items_skip by (metis is_grp.simps(3))
  from match_items_Grp_Alt[OF this] obtain unit gs5 p5 s5 n5 where
    u: "unit \<in> set ?units" "gs3 = unit # gs5" and "match_items [] p5 s5 = Some (n5, gs5)"
    by blast
  then have "gs5 = []" by simp
  moreover have "set ?units = set (map fst time_map)" by (simp add: time_map_def)
  ultimately show ?thesis using a u by blast
qed

lemma group_simps:
  "m_groups m = [a, b] \<Longrightarrow> group m 1 = Inr a \<and> group m 2 = Inr b"
  by (simp add: group_def)

lemma subscript_time_map:
  "unit \<in> set (map fst time_map) \<Longrightarrow> \<exists>code. subscript time_map unit = Inr code \<and> map_of time_map unit = Some code"
  by (cases "map_of time_map unit") (auto simp: subscript_def map_of_eq_None_iff)

lemma build_time_range_last:
  assumes "re_search time_pattern (lower ts) = Some m"
  shows "\<exists>amount unit code.
           group m 1 = Inr amount \<and> group m 2 = Inr unit \<and> amount \<noteq> [] \<and> list_all is_digit amount \<and>
           map_of time_map unit = Some code \<and>
           build_time_range ts =
             Inr (Some (JDict [(''range'', JDict [(''@timestamp'', JDict [(''gte'', JStr (''now-'' @ amount @ code))])])]))"
proof -
  from re_search_matchD[OF assms] obtain prev' s' n where
    "match_items time_pattern prev' s' = Some (n, m_groups m)" by blast
  from time_pattern_groups[OF this] obtain amount unit where
    g: "m_groups m = [amount, unit]" "amount \<noteq> []" "list_all is_digit amount"
       "unit \<in> set (map fst time_map)" by blast
  from subscript_time_map[OF g(4)] obtain code where
    c: "subscript time_map unit = Inr code" "map_of time_map unit = Some code" by blast
  from group_simps[OF g(1)] have gr: "group m 1 = Inr amount" "group m 2 = Inr unit" by simp_all
  have "build_time_range ts =
      Inr (Some (JDict [(''range'', JDict [(''@timestamp'', JDict [(''gte'', JStr (''now-'' @ amount @ code))])])]))"
    using assms gr c(1) by (simp add: build_time_range_def TIMESTAMP_FIELD_def)
  with gr g c show ?thesis by blast
qed

lemma build_time_range_Inr: "\<exists>r. build_time_range ts = Inr r \<and> r \<noteq> Some (JDict [])"
proof (cases "re_search time_pattern (lower ts)")
  case None
  then show ?thesis by (simp add: build_time_range_def)
next
  case (Some m)
  from build_time_range_last[OF this] show ?thesis by auto
qed

lemma extract_log_level_cases:
  "extract_log_level q = Some l \<Longrightarrow> l \<in> {''error'', ''warn'', ''info'', ''debug'', ''trace''}"
  unfolding extract_log_level_def levels_def
  by (auto split: if_splits)

lemma lower_levels:
  "l \<in> {''error'', ''warn'', ''info'', ''debug'', ''trace''} \<Longrightarrow> lower l = l \<and> l \<noteq> []"
  by (auto simp: lower_def lower_char_def ord_def)

lemma foldl_append_clauses:
  "foldl (\<lambda>acc term. acc @ [f term]) acc0 terms = acc0 @ map f terms"
  by (induction terms arbitrary: acc0) simp_all

subsection \<open>The dictionary that \<^verbatim>\<open>_parse_to_dict\<close> returns\<close>

lemma parse_to_dict_unsupported:
  "is_unsupported_query (normalise u) \<Longrightarrow>
   parse_to_dict self u = Inr (JDict [(''error'', JStr error_message)])"
  by (simp add: parse_to_dict_def normalise_def)

lemma parse_to_dict_cluster:
  "\<not> is_unsupported_query (normalise u) \<Longrightarrow> is_cluster_query (normalise u) \<Longrightarrow>
   parse_to_dict self u = Inr (handle_cluster_query (normalise u))"
  by (simp add: parse_to_dict_def normalise_def)

lemma parse_to_dict_cat:
  "\<not> is_unsupported_query (normalise u) \<Longrightarrow> \<not> is_cluster_query (normalise u) \<Longrightarrow>
   is_cat_query (normalise u) \<Longrightarrow>
   parse_to_dict self u = Inr (handle_cat_query (normalise u))"
  by (simp add: parse_to_dict_def normalise_def)

lemma level_clause_code:
  "(case extract_log_level q of
      Some l \<Rightarrow> if l \<noteq> [] then [] @ [build_log_level_filter l] else []
    | None \<Rightarrow> []) = level_clause q"
proof (cases "extract_log_level q")
  case None
  then show ?thesis by (simp add: level_clause_def)
next
  case (Some l)
  from lower_levels[OF extract_log_level_cases[OF Some]] Some show ?thesis
    by (simp add: level_clause_def build_log_level_filter_def)
qed

lemma parse_to_dict_search:
  assumes "search_intent u"
  shows "\<exists>sz. extract_size (normalise u) = Inr sz \<and>
     parse_to_dict self u =
       Inr (JDict [(''size'', JInt (case sz of
                                      Some n \<Rightarrow> if n \<noteq> 0 then n else default_size (query_builder self)
                                    | None \<Rightarrow> default_size (query_builder self))),
                   (''sort'', default_sort' (query_builder self)),
                   (''query'', if must_list_spec (normalise u) \<noteq> []
                               then JDict [(''bool'', JDict [(''must'', JList (must_list_spec (normalise u)))])]
                               else JDict [(''match_all'', JDict [])])])"
proof -
  let ?q = "normalise u"
  from assms have c: "\<not> is_unsupported_query ?q" "\<not> is_cluster_query ?q" "\<not> is_cat_query ?q"
    by (simp_all add: search_intent_def)
  obtain sn where sn: "extract_service_name ?q = Inr sn" "sn \<noteq> Some []"
    using extract_service_name_Inr by blast
  obtain tf where tf: "extract_time_range ?q = Inr tf" "tf \<noteq> Some (JDict [])"
    using build_time_range_Inr unfolding extract_time_range_def by blast
  obtain sz where sz: "extract_size ?q = Inr sz"
    using extract_size_Inr by blast
  have sc: "service_clause ?q = (case sn of Some n \<Rightarrow> [build_service_filter n] | None \<Rightarrow> [])"
    using sn by (simp add: service_clause_def build_service_filter_def split: option.splits)
  have tc: "time_clause ?q = (case tf of Some f \<Rightarrow> [f] | None \<Rightarrow> [])"
    using tf by (simp add: time_clause_def split: option.splits)
  have tm: "term_clauses ?q = map (\<lambda>t. build_text_search t ''_all'') (extract_search_terms ?q)"
    by (simp add: term_clauses_def build_text_search_def)
  have lc: "level_clause ?q = (case extract_log_level ?q of
      Some l \<Rightarrow> if l \<noteq> [] then [] @ [build_log_level_filter l] else []
    | None \<Rightarrow> [])" by (simp only: level_clause_code)
  have "parse_to_dict self u =
       Inr (JDict [(''size'', JInt (case sz of
                                      Some n \<Rightarrow> if n \<noteq> 0 then n else default_size (query_builder self)
                                    | None \<Rightarrow> default_size (query_builder self))),
                   (''sort'', default_sort' (query_builder self)),
                   (''query'', if must_list_spec ?q \<noteq> []
                               then JDict [(''bool'', JDict [(''must'', JList (must_list_spec ?q))])]
                               else JDict [(''match_all'', JDict [])])])"
    unfolding must_list_spec_def sc tc tm lc
    using c sn tf sz
    by (cases sn; cases tf; cases sz; cases "extract_log_level ?q")
       (simp_all add: parse_to_dict_def normalise_def[symmetric] Let_def build_base_query_def
          build_bool_query_def foldl_append_clauses)
  with sz show ?thesis by blast
qed

lemma parse_to_dict_Inr: "\<exists>d. parse_to_dict self u = Inr d"
proof (cases "search_intent u")
  case True
  from parse_to_dict_search[OF this] show ?thesis by blast
next
  case False
  then show ?thesis
    unfolding search_intent_def
    using parse_to_dict_unsupported parse_to_dict_cluster parse_to_dict_cat by blast
qed

subsection \<open>The strings that \<^verbatim>\<open>parse\<close> returns\<close>

lemma enc_size: \<open>encode_basestring_ascii ''size'' = ''"size"''\<close>
  by code_simp

lemma dumps_search_prefix:
  \<open>dumps_compact (JDict [(''size'', a), b, c]) =
     ''{"size":'' @ json_dumps '','' '':'' a @ '','' @
       encode_basestring_ascii (fst b) @ '':'' @ json_dumps '','' '':'' (snd b) @ '','' @
       encode_basestring_ascii (fst c) @ '':'' @ json_dumps '','' '':'' (snd c) @ ''}''\<close>
  by (simp add: dumps_compact_def enc_size)

lemma cluster_outputs:
  \<open>dumps_compact (handle_cluster_query q) \<in>
     {''{"api":"_cluster/health"}'', ''{"api":"_cat/nodes?v"}'',
      ''{"error":"Unsupported cluster query. Please rephrase or check available APIs."}''}\<close>
proof -
  have 1: \<open>dumps_compact (JDict [(''api'', JStr ''_cluster/health'')]) = ''{"api":"_cluster/health"}''\<close>
    by code_simp
  have 2: \<open>dumps_compact (JDict [(''api'', JStr ''_cat/nodes?v'')]) = ''{"api":"_cat/nodes?v"}''\<close>
    by code_simp
  have 3: \<open>dumps_compact (JDict [(''error'', JStr ''Unsupported cluster query. Please rephrase or check available APIs.'')])
      = ''{"error":"Unsupported cluster query. Please rephrase or check available APIs."}''\<close>
    by code_simp
  show ?thesis unfolding handle_cluster_query_def using 1 2 3 by simp
qed

lemma shards_is_cluster: "sublist ''shards'' q \<Longrightarrow> is_cluster_query q"
proof -
  assume a: "sublist ''shards'' q"
  have "sublist ''shard'' ''shards''" by code_simp
  then have "sublist ''shard'' q" using a by (rule sublist_order.order.trans)
  then show ?thesis by (simp add: is_cluster_query_def cluster_keywords_def)
qed

lemma cat_outputs:
  assumes "\<not> is_cluster_query q"
  shows \<open>handle_cat_query q \<noteq> JDict [(''api'', JStr ''_cat/shards?v'')] \<and>
     dumps_compact (handle_cat_query q) \<in>
     {''{"api":"_cat/indices?v"}'', ''{"api":"_cat/nodes?v"}'',
      ''{"error":"Unsupported cat query. Please rephrase or check available APIs."}''}\<close>
proof -
  have 1: \<open>dumps_compact (JDict [(''api'', JStr ''_cat/indices?v'')]) = ''{"api":"_cat/indices?v"}''\<close>
    by code_simp
  have 2: \<open>dumps_compact (JDict [(''api'', JStr ''_cat/nodes?v'')]) = ''{"api":"_cat/nodes?v"}''\<close>
    by code_simp
  have 3: \<open>dumps_compact (JDict [(''error'', JStr ''Unsupported cat query. Please rephrase or check available APIs.'')])
      = ''{"error":"Unsupported cat query. Please rephrase or check available APIs."}''\<close>
    by code_simp
  from assms have "\<not> sublist ''shards'' q" using shards_is_cluster by blast
  then show ?thesis unfolding handle_cat_query_def using 1 2 3 by simp
qed

lemma parse_shapes:
  \<open>parse self u \<in>
     {''{"error":"Unsupported query. Please rephrase or check available APIs."}'',
      ''{"api":"_cluster/health"}'', ''{"api":"_cat/nodes?v"}'',
      ''{"error":"Unsupported cluster query. Please rephrase or check available APIs."}'',
      ''{"api":"_cat/indices?v"}'',
      ''{"error":"Unsupported cat query. Please rephrase or check available APIs."}''} \<or>
   (\<exists>rest. parse self u = ''{"size":'' @ rest)\<close>
proof (cases "search_intent u")
  case True
  from parse_to_dict_search[OF this, of self] obtain a b c where
    "parse_to_dict self u = Inr (JDict [(''size'', a), b, c])" by blast
  then have "\<exists>rest. parse self u = ''{\"size\":'' @ rest"
    by (simp add: parse_def dumps_search_prefix)
  then show ?thesis by blast
next
  case False
  consider (u) "is_unsupported_query (normalise u)"
    | (cl) "\<not> is_unsupported_query (normalise u)" "is_cluster_query (normalise u)"
    | (cat) "\<not> is_unsupported_query (normalise u)" "\<not> is_cluster_query (normalise u)"
            "is_cat_query (normalise u)"
    using False unfolding search_intent_def by blast
  then show ?thesis
  proof cases
    case u
    then show ?thesis by (simp add: parse_def parse_to_dict_unsupported err_compact)
  next
    case cl
    then have "parse self u = dumps_compact (handle_cluster_query (normalise u))"
      by (simp add: parse_def parse_to_dict_cluster)
    with cluster_outputs[of "normalise u"] show ?thesis by auto
  next
    case cat
    then have "parse self u = dumps_compact (handle_cat_query (normalise u))"
      by (simp add: parse_def parse_to_dict_cat)
    with cat_outputs[OF cat(2)] show ?thesis by auto
  qed
qed

subsection \<open>Extracted sizes\<close>





lemma default_query_dumps:
  \<open>dumps_compact (JDict [(''size'', JInt 50), (''sort'', JList [JDict [(''@timestamp'', JStr ''desc'')]]),
                          (''query'', JDict [(''match_all'', JDict [])])]) =
   ''{"size":50,"sort":[{"@timestamp":"desc"}],"query":{"match_all":{}}}''\<close>
  by code_simp

lemma shards_api_dumps:
  \<open>dumps_compact (JDict [(''api'', JStr ''_cat/shards?v'')]) = ''{"api":"_cat/shards?v"}''\<close>
  by code_simp

lemma time_map_code_spec:
  "map_of time_map unit = Some code \<Longrightarrow> code = unit_code_spec unit \<and> unit \<in> set (map fst time_map)"
  by (auto simp: time_map_def unit_code_spec_def split: if_splits)

subsection \<open>The first end-to-end scenario\<close>






subsection \<open>Decimal digits\<close>

declare digits_of.simps [simp del]






subsection \<open>The utterances \<open>top N errors\<close>\<close>





















































section \<open>The claims\<close>

text \<open>
  C1. An utterance whose normalised form (lower-cased, trimmed: the string every check of the
  parser reads) contains one of the unsupported keywords, or has a match of one of the
  mutating-verb patterns, is answered with the fixed error payload, whatever else it
  contains: the check comes before the cluster, cat and search classifications.
\<close>

theorem unsupported_query_rejected:
  assumes \<open>(\<exists>keyword \<in> set unsupported_keywords. sublist keyword (strip (lower u))) \<or>
           (\<exists>pattern \<in> set modify_patterns. re_search pattern (strip (lower u)) \<noteq> None)\<close>
  shows \<open>parse self u = ''{"error":"Unsupported query. Please rephrase or check available APIs."}''\<close>
proof -
  from assms have "is_unsupported_query (strip (lower u))"
    unfolding is_unsupported_query_def list_ex_iff by auto
  then have "parse_to_dict self u = Inr (JDict [(''error'', JStr error_message)])"
    by (simp add: parse_to_dict_def)
  then show ?thesis by (simp add: parse_def err_compact)
qed

theorem unsupported_query_rejected_witness:
  \<open>((\<exists>keyword \<in> set unsupported_keywords. sublist keyword (strip (lower ''Add field foo to cluster health''))) \<or>
    (\<exists>pattern \<in> set modify_patterns. re_search pattern (strip (lower ''Add field foo to cluster health'')) \<noteq> None)) \<and>
   parse (NLQParser_init True) ''Add field foo to cluster health'' =
     ''{"error":"Unsupported query. Please rephrase or check available APIs."}''\<close>
proof -
  have h: \<open>(\<exists>keyword \<in> set unsupported_keywords. sublist keyword (strip (lower ''Add field foo to cluster health''))) \<or>
    (\<exists>pattern \<in> set modify_patterns. re_search pattern (strip (lower ''Add field foo to cluster health'')) \<noteq> None)\<close>
    by code_simp
  show ?thesis using unsupported_query_rejected [OF h] h by simp
qed


text \<open>
  C8. Two calls of \<^verbatim>\<open>parse\<close> on the same string, the second on the parser object the
  first call left, return the same string; and the string is the same whether the parser
  was built with logging on or off.
\<close>

theorem parse_deterministic:
  \<open>fst (parse_call (snd (parse_call self u)) u) = fst (parse_call self u) \<and>
   parse (NLQParser_init True) u = parse (NLQParser_init False) u\<close>
  by (simp add: parse_call_def parse_def parse_to_dict_def NLQParser_init_def cong: if_cong)




text \<open>
  C9. \<^verbatim>\<open>parse\<close> never returns the cat-shards call: an utterance that contains
  \<open>shards\<close> contains \<open>shard\<close>, so the cluster check, which comes first, takes it, and it is
  answered with the cluster health call, the nodes call or the cluster error.
\<close>

theorem cat_shards_unreachable:
  \<open>parse self u \<noteq> ''{"api":"_cat/shards?v"}'' \<and>
   parse_to_dict self u \<noteq> Inr (JDict [(''api'', JStr ''_cat/shards?v'')]) \<and>
   (sublist ''shards'' (normalise u) \<longrightarrow> is_cluster_query (normalise u)) \<and>
   (sublist ''shards'' (normalise u) \<and> \<not> is_unsupported_query (normalise u) \<longrightarrow>
      parse self u \<in>
        {''{"api":"_cluster/health"}'', ''{"api":"_cat/nodes?v"}'',
         ''{"error":"Unsupported cluster query. Please rephrase or check available APIs."}''})\<close>
proof -
  have a: \<open>parse self u \<noteq> ''{"api":"_cat/shards?v"}''\<close>
    using parse_shapes[of self u] by auto
  have b: "parse_to_dict self u \<noteq> Inr (JDict [(''api'', JStr ''_cat/shards?v'')])"
  proof
    assume "parse_to_dict self u = Inr (JDict [(''api'', JStr ''_cat/shards?v'')])"
    then have \<open>parse self u = ''{"api":"_cat/shards?v"}''\<close>
      by (simp add: parse_def shards_api_dumps)
    with a show False by simp
  qed
  have c: "sublist ''shards'' (normalise u) \<longrightarrow> is_cluster_query (normalise u)"
    using shards_is_cluster by blast
  have d: \<open>sublist ''shards'' (normalise u) \<and> \<not> is_unsupported_query (normalise u) \<longrightarrow>
      parse self u \<in>
        {''{"api":"_cluster/health"}'', ''{"api":"_cat/nodes?v"}'',
         ''{"error":"Unsupported cluster query. Please rephrase or check available APIs."}''}\<close>
  proof
    assume h: "sublist ''shards'' (normalise u) \<and> \<not> is_unsupported_query (normalise u)"
    with c have "parse self u = dumps_compact (handle_cluster_query (normalise u))"
      by (simp add: parse_def parse_to_dict_cluster)
    with cluster_outputs[of "normalise u"] show \<open>parse self u \<in>
        {''{"api":"_cluster/health"}'', ''{"api":"_cat/nodes?v"}'',
         ''{"error":"Unsupported cluster query. Please rephrase or check available APIs."}''}\<close>
      by simp
  qed
  from a b c d show ?thesis by blast
qed

theorem cat_shards_unreachable_witness:
  \<open>sublist ''shards'' (normalise ''List shards'') \<and> \<not> is_unsupported_query (normalise ''List shards'') \<and>
   is_cluster_query (normalise ''List shards'') \<and>
   parse (NLQParser_init True) ''List shards'' \<in>
        {''{"api":"_cluster/health"}'', ''{"api":"_cat/nodes?v"}'',
         ''{"error":"Unsupported cluster query. Please rephrase or check available APIs."}''} \<and>
   parse (NLQParser_init True) ''List shards'' \<noteq> ''{"api":"_cat/shards?v"}''\<close>
proof -
  have h: "sublist ''shards'' (normalise ''List shards'') \<and> \<not> is_unsupported_query (normalise ''List shards'')"
    by code_simp
  show ?thesis using cat_shards_unreachable [of "NLQParser_init True" "''List shards''"] h by blast
qed

text \<open>
  C6. An utterance of search intent in which no extractor finds a facet is answered with
  the default query: size 50, the descending sort on the timestamp, match-all.
\<close>

theorem default_match_all:
  assumes "search_intent u"
    and "extract_log_level (normalise u) = None"
    and "extract_service_name (normalise u) = Inr None"
    and "extract_time_range (normalise u) = Inr None"
    and "extract_search_terms (normalise u) = []"
    and "extract_size (normalise u) = Inr None"
  shows \<open>parse (NLQParser_init b) u = ''{"size":50,"sort":[{"@timestamp":"desc"}],"query":{"match_all":{}}}''\<close>
proof -
  from assms(2-5) have "must_list_spec (normalise u) = []"
    by (simp add: must_list_spec_def level_clause_def service_clause_def time_clause_def term_clauses_def)
  with parse_to_dict_search[OF assms(1), of "NLQParser_init b"] assms(6)
  have "parse_to_dict (NLQParser_init b) u =
      Inr (JDict [(''size'', JInt 50), (''sort'', JList [JDict [(''@timestamp'', JStr ''desc'')]]),
                  (''query'', JDict [(''match_all'', JDict [])])])"
    by (auto simp: NLQParser_init_def OpenSearchQueryBuilder_init_def TIMESTAMP_FIELD_def)
  then show ?thesis by (simp add: parse_def default_query_dumps)
qed

theorem default_match_all_witness:
  \<open>search_intent ''Show me the logs '' \<and>
   extract_log_level (normalise ''Show me the logs '') = None \<and>
   extract_service_name (normalise ''Show me the logs '') = Inr None \<and>
   extract_time_range (normalise ''Show me the logs '') = Inr None \<and>
   extract_search_terms (normalise ''Show me the logs '') = [] \<and>
   extract_size (normalise ''Show me the logs '') = Inr None \<and>
   parse (NLQParser_init False) ''Show me the logs '' =
     ''{"size":50,"sort":[{"@timestamp":"desc"}],"query":{"match_all":{}}}''\<close>
proof -
  have h1: "search_intent ''Show me the logs ''" by code_simp
  have h2: "extract_log_level (normalise ''Show me the logs '') = None" by code_simp
  have h3: "extract_service_name (normalise ''Show me the logs '') = Inr None" by code_simp
  have h4: "extract_time_range (normalise ''Show me the logs '') = Inr None" by code_simp
  have h5: "extract_search_terms (normalise ''Show me the logs '') = []" by code_simp
  have h6: "extract_size (normalise ''Show me the logs '') = Inr None" by code_simp
  show ?thesis using default_match_all [OF h1 h2 h3 h4 h5 h6, of False] h1 h2 h3 h4 h5 h6 by simp
qed



text \<open>
  C3. \<^verbatim>\<open>build_time_range\<close> tries the pattern \<^verbatim>\<open>last <int> <unit>\<close> first: on a match
  the two groups are a number and a unit of the synonym table, and the clause is
  \<open>gte: now-<number><code>\<close> with the short code of the unit. Without a match, \<open>today\<close> in
  the text gives \<open>gte: now/d\<close>; failing that, \<open>yesterday\<close> gives
  \<open>gte: now-1d/d, lt: now/d\<close>; failing that, there is no clause.
\<close>

theorem time_range_extraction:
  \<open>(\<forall>m. re_search time_pattern (lower ts) = Some m \<longrightarrow>
      (\<exists>amount unit. group m 1 = Inr amount \<and> group m 2 = Inr unit \<and>
         amount \<noteq> [] \<and> list_all is_digit amount \<and> unit \<in> set (map fst time_map) \<and>
         build_time_range ts =
           Inr (Some (JDict [(''range'', JDict [(''@timestamp'',
                  JDict [(''gte'', JStr (''now-'' @ amount @ unit_code_spec unit))])])])))) \<and>
   (re_search time_pattern (lower ts) = None \<and> sublist ''today'' (lower ts) \<longrightarrow>
      build_time_range ts =
        Inr (Some (JDict [(''range'', JDict [(''@timestamp'', JDict [(''gte'', JStr ''now/d'')])])]))) \<and>
   (re_search time_pattern (lower ts) = None \<and> \<not> sublist ''today'' (lower ts) \<and>
    sublist ''yesterday'' (lower ts) \<longrightarrow>
      build_time_range ts =
        Inr (Some (JDict [(''range'', JDict [(''@timestamp'',
               JDict [(''gte'', JStr ''now-1d/d''), (''lt'', JStr ''now/d'')])])]))) \<and>
   (re_search time_pattern (lower ts) = None \<and> \<not> sublist ''today'' (lower ts) \<and>
    \<not> sublist ''yesterday'' (lower ts) \<longrightarrow> build_time_range ts = Inr None) \<and>
   build_time_range ''last 5 minutes'' =
     Inr (Some (JDict [(''range'', JDict [(''@timestamp'', JDict [(''gte'', JStr ''now-5m'')])])])) \<and>
   build_time_range ''last 2 hours'' =
     Inr (Some (JDict [(''range'', JDict [(''@timestamp'', JDict [(''gte'', JStr ''now-2h'')])])]))\<close>
proof -
  have a: \<open>\<forall>m. re_search time_pattern (lower ts) = Some m \<longrightarrow>
      (\<exists>amount unit. group m 1 = Inr amount \<and> group m 2 = Inr unit \<and>
         amount \<noteq> [] \<and> list_all is_digit amount \<and> unit \<in> set (map fst time_map) \<and>
         build_time_range ts =
           Inr (Some (JDict [(''range'', JDict [(''@timestamp'',
                  JDict [(''gte'', JStr (''now-'' @ amount @ unit_code_spec unit))])])])))\<close>
  proof (intro allI impI)
    fix m
    assume "re_search time_pattern (lower ts) = Some m"
    from build_time_range_last[OF this] obtain amount unit code where
      g: "group m 1 = Inr amount" "group m 2 = Inr unit" "amount \<noteq> []" "list_all is_digit amount"
      and c: "map_of time_map unit = Some code"
      and b: "build_time_range ts =
             Inr (Some (JDict [(''range'', JDict [(''@timestamp'', JDict [(''gte'', JStr (''now-'' @ amount @ code))])])]))"
      by blast
    from time_map_code_spec[OF c] g b
    show \<open>\<exists>amount unit. group m 1 = Inr amount \<and> group m 2 = Inr unit \<and>
         amount \<noteq> [] \<and> list_all is_digit amount \<and> unit \<in> set (map fst time_map) \<and>
         build_time_range ts =
           Inr (Some (JDict [(''range'', JDict [(''@timestamp'',
                  JDict [(''gte'', JStr (''now-'' @ amount @ unit_code_spec unit))])])]))\<close>
      by blast
  qed
  have b: \<open>build_time_range ''last 5 minutes'' =
     Inr (Some (JDict [(''range'', JDict [(''@timestamp'', JDict [(''gte'', JStr ''now-5m'')])])]))\<close>
    by code_simp
  have c: \<open>build_time_range ''last 2 hours'' =
     Inr (Some (JDict [(''range'', JDict [(''@timestamp'', JDict [(''gte'', JStr ''now-2h'')])])]))\<close>
    by code_simp
  have d: \<open>re_search time_pattern (lower ts) = None \<and> sublist ''today'' (lower ts) \<longrightarrow>
      build_time_range ts =
        Inr (Some (JDict [(''range'', JDict [(''@timestamp'', JDict [(''gte'', JStr ''now/d'')])])]))\<close>
    by (simp add: build_time_range_def TIMESTAMP_FIELD_def)
  have e: \<open>re_search time_pattern (lower ts) = None \<and> \<not> sublist ''today'' (lower ts) \<and>
    sublist ''yesterday'' (lower ts) \<longrightarrow>
      build_time_range ts =
        Inr (Some (JDict [(''range'', JDict [(''@timestamp'',
               JDict [(''gte'', JStr ''now-1d/d''), (''lt'', JStr ''now/d'')])])]))\<close>
    by (simp add: build_time_range_def TIMESTAMP_FIELD_def)
  have f: \<open>re_search time_pattern (lower ts) = None \<and> \<not> sublist ''today'' (lower ts) \<and>
    \<not> sublist ''yesterday'' (lower ts) \<longrightarrow> build_time_range ts = Inr None\<close>
    by (simp add: build_time_range_def)
  from a d e f b c show ?thesis by (intro conjI)
qed

theorem time_range_extraction_witness:
  \<open>(\<exists>m amount unit. re_search time_pattern (lower ''Errors in the Last 3 months'') = Some m \<and>
      group m 1 = Inr amount \<and> group m 2 = Inr unit \<and>
      build_time_range ''Errors in the Last 3 months'' =
        Inr (Some (JDict [(''range'', JDict [(''@timestamp'',
               JDict [(''gte'', JStr (''now-'' @ amount @ unit_code_spec unit))])])]))) \<and>
   re_search time_pattern (lower ''errors today'') = None \<and> sublist ''today'' (lower ''errors today'') \<and>
   build_time_range ''errors today'' =
     Inr (Some (JDict [(''range'', JDict [(''@timestamp'', JDict [(''gte'', JStr ''now/d'')])])])) \<and>
   re_search time_pattern (lower ''Yesterday'') = None \<and> \<not> sublist ''today'' (lower ''Yesterday'') \<and>
   sublist ''yesterday'' (lower ''Yesterday'') \<and>
   build_time_range ''Yesterday'' =
     Inr (Some (JDict [(''range'', JDict [(''@timestamp'',
            JDict [(''gte'', JStr ''now-1d/d''), (''lt'', JStr ''now/d'')])])])) \<and>
   re_search time_pattern (lower ''last week'') = None \<and> \<not> sublist ''today'' (lower ''last week'') \<and>
   \<not> sublist ''yesterday'' (lower ''last week'') \<and> build_time_range ''last week'' = Inr None\<close>
proof -
  have h1: "re_search time_pattern (lower ''Errors in the Last 3 months'') =
      Some \<lparr>m_start = 14, m_end = 26, m_groups = [''3'', ''month'']\<rparr>" by code_simp
  have h2: "re_search time_pattern (lower ''errors today'') = None \<and> sublist ''today'' (lower ''errors today'')"
    by code_simp
  have h3: "re_search time_pattern (lower ''Yesterday'') = None \<and> \<not> sublist ''today'' (lower ''Yesterday'') \<and>
     sublist ''yesterday'' (lower ''Yesterday'')" by code_simp
  have h4: "re_search time_pattern (lower ''last week'') = None \<and> \<not> sublist ''today'' (lower ''last week'') \<and>
     \<not> sublist ''yesterday'' (lower ''last week'')" by code_simp
  from time_range_extraction [of "''Errors in the Last 3 months''"] h1
  have w1: \<open>\<exists>m amount unit. re_search time_pattern (lower ''Errors in the Last 3 months'') = Some m \<and>
      group m 1 = Inr amount \<and> group m 2 = Inr unit \<and>
      build_time_range ''Errors in the Last 3 months'' =
        Inr (Some (JDict [(''range'', JDict [(''@timestamp'',
               JDict [(''gte'', JStr (''now-'' @ amount @ unit_code_spec unit))])])]))\<close>
    by blast
  from time_range_extraction [of "''errors today''"] h2
  have w2: \<open>build_time_range ''errors today'' =
     Inr (Some (JDict [(''range'', JDict [(''@timestamp'', JDict [(''gte'', JStr ''now/d'')])])]))\<close>
    by blast
  from time_range_extraction [of "''Yesterday''"] h3
  have w3: \<open>build_time_range ''Yesterday'' =
     Inr (Some (JDict [(''range'', JDict [(''@timestamp'',
            JDict [(''gte'', JStr ''now-1d/d''), (''lt'', JStr ''now/d'')])])]))\<close>
    by blast
  from time_range_extraction [of "''last week''"] h4
  have w4: "build_time_range ''last week'' = Inr None"
    by blast
  from w1 w2 w3 w4 h2 h3 h4 show ?thesis by (intro conjI) blast+
qed





end
